theory Spec2Isabelle
  imports Main "HOL-Library.Char_ord"
begin

section \<open>JavaScript strings\<close>

text \<open>
  SQL text is a \<^typ>\<open>string\<close>: a list of code units, here the code units 0 to 255.
  Case mapping (\<open>toLowerCase\<close>, \<open>toUpperCase\<close>, the \<open>i\<close> flag of a regular
  expression) is the ASCII one; white space (\<open>\s\<close>, \<open>trim\<close>) is the JavaScript set
  restricted to these code units: tab, line feed, vertical tab, form feed, carriage
  return, space and no-break space.
\<close>

definition lowerTable :: "(char \<times> char) list" where
  "lowerTable = zip ''ABCDEFGHIJKLMNOPQRSTUVWXYZ'' ''abcdefghijklmnopqrstuvwxyz''"

definition toLowerChar :: "char \<Rightarrow> char" where
  "toLowerChar c = (case map_of lowerTable c of Some d \<Rightarrow> d | None \<Rightarrow> c)"

definition toUpperChar :: "char \<Rightarrow> char" where
  "toUpperChar c = (case map_of (map (\<lambda>(u, l). (l, u)) lowerTable) c of Some d \<Rightarrow> d | None \<Rightarrow> c)"

definition toLowerCase :: "string \<Rightarrow> string" where
  "toLowerCase s = map toLowerChar s"

definition toUpperCase :: "string \<Rightarrow> string" where
  "toUpperCase s = map toUpperChar s"

definition isSpace :: "char \<Rightarrow> bool" where
  "isSpace c = (c \<in> set [CHR 0x09, CHR 0x0A, CHR 0x0B, CHR 0x0C, CHR 0x0D, CHR 0x20, CHR 0xA0])"

definition isDigit :: "char \<Rightarrow> bool" where
  "isDigit c = (c \<in> set ''0123456789'')"

definition isWord :: "char \<Rightarrow> bool" where
  "isWord c = (c \<in> set ''abcdefghijklmnopqrstuvwxyzABCDEFGHIJKLMNOPQRSTUVWXYZ0123456789_'')"

definition str_trim :: "string \<Rightarrow> string" where
  "str_trim s = rev (dropWhile isSpace (rev (dropWhile isSpace s)))"

fun str_startsWith :: "string \<Rightarrow> string \<Rightarrow> bool" where
  "str_startsWith s [] = True"
| "str_startsWith [] (p # ps) = False"
| "str_startsWith (x # xs) (p # ps) = (x = p \<and> str_startsWith xs ps)"

definition str_endsWith :: "string \<Rightarrow> string \<Rightarrow> bool" where
  "str_endsWith s p = str_startsWith (rev s) (rev p)"

fun str_includes :: "string \<Rightarrow> string \<Rightarrow> bool" where
  "str_includes [] p = (p = [])"
| "str_includes (x # xs) p = (str_startsWith (x # xs) p \<or> str_includes xs p)"

text \<open>\<open>s.indexOf(p)\<close>: the first position where \<open>p\<close> starts, \<open>None\<close> for -1.\<close>

fun str_indexOf :: "string \<Rightarrow> string \<Rightarrow> nat option" where
  "str_indexOf [] p = (if p = [] then Some 0 else None)"
| "str_indexOf (x # xs) p =
     (if str_startsWith (x # xs) p then Some 0 else map_option Suc (str_indexOf xs p))"

text \<open>\<open>s.slice(1, -1)\<close>: the string without its first and last code unit.\<close>

definition str_slice1 :: "string \<Rightarrow> string" where
  "str_slice1 s = butlast (tl s)"

text \<open>\<open>s.split(c)\<close> for a one-character separator: never an empty list.\<close>

fun str_split :: "char \<Rightarrow> string \<Rightarrow> string list" where
  "str_split sep [] = [[]]"
| "str_split sep (x # xs) =
     (if x = sep then [] # str_split sep xs
      else (case str_split sep xs of [] \<Rightarrow> [[x]] | seg # segs \<Rightarrow> (x # seg) # segs))"

fun str_join :: "string \<Rightarrow> string list \<Rightarrow> string" where
  "str_join sep [] = []"
| "str_join sep [s] = s"
| "str_join sep (s # t # ts) = s @ sep @ str_join sep (t # ts)"

section \<open>Regular expressions\<close>

text \<open>
  The source matches text with JavaScript regular expressions. They are embedded as
  syntax trees, interpreted by a backtracking matcher written in continuation-passing
  style: alternatives are tried left to right, quantifiers are greedy unless marked lazy,
  and the first way to match the whole pattern wins, as \<open>RegExp.prototype.exec\<close> does.
  The matcher's state is the text before the position (reversed), the text from the
  position on, and the capture groups closed so far (latest first).
\<close>

datatype cls = Lit char | Rng char char | WordC | SpaceC | DigitC | NonSpaceC | Dot

datatype re =
    Eps
  | One "cls list"
  | NoneOf "cls list"
  | Str string
  | Seq re re
  | Alt re re
  | Opt re
  | Star re
  | LazyStar re
  | Grp nat re
  | Bol
  | Eol
  | WordB
  | NegAhead re
  | NegBehind "cls list"

type_synonym caps = "(nat \<times> string) list"
type_synonym mstate = "string \<times> string \<times> caps"
type_synonym cont = "mstate \<Rightarrow> mstate option"

text \<open>
  \<open>ic\<close> is the \<open>i\<close> flag: a character matches a literal or a range when their upper-case
  forms agree. \<open>\w\<close>, \<open>\s\<close>, \<open>\d\<close> and \<open>.\<close> do not depend on it.
\<close>

fun cls_match :: "bool \<Rightarrow> cls \<Rightarrow> char \<Rightarrow> bool" where
  "cls_match ic (Lit p) x = (if ic then toUpperChar x = toUpperChar p else x = p)"
| "cls_match ic (Rng lo hi) x =
     ((lo \<le> x \<and> x \<le> hi) \<or>
      (ic \<and> ((lo \<le> toLowerChar x \<and> toLowerChar x \<le> hi) \<or> (lo \<le> toUpperChar x \<and> toUpperChar x \<le> hi))))"
| "cls_match ic WordC x = isWord x"
| "cls_match ic SpaceC x = isSpace x"
| "cls_match ic DigitC x = isDigit x"
| "cls_match ic NonSpaceC x = (\<not> isSpace x)"
| "cls_match ic Dot x = (x \<noteq> CHR 0x0A \<and> x \<noteq> CHR 0x0D)"

definition in_class :: "bool \<Rightarrow> cls list \<Rightarrow> char \<Rightarrow> bool" where
  "in_class ic cs x = list_ex (\<lambda>cl. cls_match ic cl x) cs"

fun match_str :: "bool \<Rightarrow> string \<Rightarrow> string \<Rightarrow> string \<Rightarrow> (string \<times> string) option" where
  "match_str ic [] b a = Some (b, a)"
| "match_str ic (p # ps) b [] = None"
| "match_str ic (p # ps) b (x # xs) =
     (if cls_match ic (Lit p) x then match_str ic ps (x # b) xs else None)"

text \<open>A look-behind for a fixed sequence of classes, read backwards from the position.\<close>

fun behind :: "bool \<Rightarrow> cls list \<Rightarrow> string \<Rightarrow> bool" where
  "behind ic [] b = True"
| "behind ic (c # cs) [] = False"
| "behind ic (c # cs) (x # b) = (cls_match ic c x \<and> behind ic cs b)"

text \<open>
  \<open>r*\<close>: one more round of \<open>r\<close> first, the continuation second. A round that consumes
  nothing is rejected, as the language specifies, so each round shortens the text left.
\<close>

function star_loop :: "(cont \<Rightarrow> cont) \<Rightarrow> cont \<Rightarrow> mstate \<Rightarrow> mstate option" where
  "star_loop body k (b, [], c) = k (b, [], c)"
| "star_loop body k (b, x # xs, c) =
     (case body (\<lambda>(b', a', c'). if length a' < Suc (length xs) then star_loop body k (b', a', c') else None)
             (b, x # xs, c) of
        Some r \<Rightarrow> Some r
      | None \<Rightarrow> k (b, x # xs, c))"
  by pat_completeness auto
termination
  by (relation "measure (\<lambda>(body, k, b, a, c). length a)") auto

text \<open>\<open>r*?\<close>: the continuation first, one more round of \<open>r\<close> second.\<close>

function lazy_loop :: "(cont \<Rightarrow> cont) \<Rightarrow> cont \<Rightarrow> mstate \<Rightarrow> mstate option" where
  "lazy_loop body k (b, [], c) = k (b, [], c)"
| "lazy_loop body k (b, x # xs, c) =
     (case k (b, x # xs, c) of
        Some r \<Rightarrow> Some r
      | None \<Rightarrow>
          body (\<lambda>(b', a', c'). if length a' < Suc (length xs) then lazy_loop body k (b', a', c') else None)
            (b, x # xs, c))"
  by pat_completeness auto
termination
  by (relation "measure (\<lambda>(body, k, b, a, c). length a)") auto

primrec rmatch :: "re \<Rightarrow> bool \<Rightarrow> cont \<Rightarrow> mstate \<Rightarrow> mstate option" where
  "rmatch Eps ic k s = k s"
| "rmatch (One cs) ic k s =
     (case s of
        (b, [], c) \<Rightarrow> None
      | (b, x # xs, c) \<Rightarrow> if in_class ic cs x then k (x # b, xs, c) else None)"
| "rmatch (NoneOf cs) ic k s =
     (case s of
        (b, [], c) \<Rightarrow> None
      | (b, x # xs, c) \<Rightarrow> if in_class ic cs x then None else k (x # b, xs, c))"
| "rmatch (Str p) ic k s =
     (case s of (b, a, c) \<Rightarrow>
        (case match_str ic p b a of None \<Rightarrow> None | Some (b', a') \<Rightarrow> k (b', a', c)))"
| "rmatch (Seq r1 r2) ic k s = rmatch r1 ic (rmatch r2 ic k) s"
| "rmatch (Alt r1 r2) ic k s =
     (case rmatch r1 ic k s of Some r \<Rightarrow> Some r | None \<Rightarrow> rmatch r2 ic k s)"
| "rmatch (Opt r) ic k s =
     (case rmatch r ic k s of Some r \<Rightarrow> Some r | None \<Rightarrow> k s)"
| "rmatch (Star r) ic k s = star_loop (rmatch r ic) k s"
| "rmatch (LazyStar r) ic k s = lazy_loop (rmatch r ic) k s"
| "rmatch (Grp n r) ic k s =
     (case s of (b, a, c) \<Rightarrow>
        rmatch r ic (\<lambda>(b', a', c'). k (b', a', (n, take (length a - length a') a) # c')) s)"
| "rmatch Bol ic k s = (case s of (b, a, c) \<Rightarrow> if b = [] then k s else None)"
| "rmatch Eol ic k s = (case s of (b, a, c) \<Rightarrow> if a = [] then k s else None)"
| "rmatch WordB ic k s =
     (case s of (b, a, c) \<Rightarrow>
        if (b \<noteq> [] \<and> isWord (hd b)) \<noteq> (a \<noteq> [] \<and> isWord (hd a)) then k s else None)"
| "rmatch (NegAhead r) ic k s =
     (case rmatch r ic Some s of Some r \<Rightarrow> None | None \<Rightarrow> k s)"
| "rmatch (NegBehind cs) ic k s =
     (case s of (b, a, c) \<Rightarrow> if behind ic (rev cs) b then None else k s)"

text \<open>
  \<open>exec\<close> from a position: the leftmost start where the pattern matches. The result is
  the text before the match (reversed) and the state at its end.
\<close>

fun search :: "re \<Rightarrow> bool \<Rightarrow> string \<Rightarrow> string \<Rightarrow> (string \<times> mstate) option" where
  "search r ic b [] =
     (case rmatch r ic Some (b, [], []) of Some s \<Rightarrow> Some (b, s) | None \<Rightarrow> None)"
| "search r ic b (x # xs) =
     (case rmatch r ic Some (b, x # xs, []) of
        Some s \<Rightarrow> Some (b, s)
      | None \<Rightarrow> search r ic (x # b) xs)"

text \<open>\<open>re.test(s)\<close> and \<open>re.exec(s)\<close> with \<open>lastIndex = 0\<close>, and \<open>match[n]\<close>.\<close>

definition re_test :: "re \<Rightarrow> bool \<Rightarrow> string \<Rightarrow> bool" where
  "re_test r ic s = (search r ic [] s \<noteq> None)"

definition re_exec :: "re \<Rightarrow> bool \<Rightarrow> string \<Rightarrow> (string \<times> mstate) option" where
  "re_exec r ic s = search r ic [] s"

definition group :: "nat \<Rightarrow> string \<times> mstate \<Rightarrow> string option" where
  "group n mt = (case mt of (st, (b, a, c)) \<Rightarrow> map_of c n)"

text \<open>\<open>match[0]\<close> and \<open>match.index\<close>.\<close>

definition matched :: "string \<times> mstate \<Rightarrow> string" where
  "matched mt = (case mt of (st, (b, a, c)) \<Rightarrow> rev (take (length b - length st) b))"

definition match_index :: "string \<times> mstate \<Rightarrow> nat" where
  "match_index mt = length (fst mt)"

text \<open>
  \<open>while ((match = re.exec(s)) !== null)\<close> on a global pattern: every match, each search
  resuming where the last match ended. A match that consumed nothing would make the
  source spin on the same position; the patterns looped over all consume text, and the
  list ends there.
\<close>

function exec_all :: "re \<Rightarrow> bool \<Rightarrow> string \<Rightarrow> string \<Rightarrow> (string \<times> mstate) list" where
  "exec_all r ic b a =
     (case search r ic b a of
        None \<Rightarrow> []
      | Some (st, (b', a', c)) \<Rightarrow>
          if length a' < length a then (st, (b', a', c)) # exec_all r ic b' a'
          else [(st, (b', a', c))])"
  by pat_completeness auto
termination
  by (relation "measure (\<lambda>(r, ic, b, a). length a)") auto

text \<open>
  \<open>s.replace(re, rep)\<close> with a global pattern and a fixed replacement: every match is
  replaced, left to right. Every pattern the source replaces needs at least one
  character, so each match shortens the text left; the rest is copied otherwise.
\<close>

function replace_from :: "re \<Rightarrow> bool \<Rightarrow> string \<Rightarrow> string \<Rightarrow> string \<Rightarrow> string" where
  "replace_from r ic rep b a =
     (case search r ic b a of
        None \<Rightarrow> a
      | Some (st, (b', a', c)) \<Rightarrow>
          take (length st - length b) a @ rep @
            (if length a' < length a then replace_from r ic rep b' a' else a'))"
  by pat_completeness auto
termination
  by (relation "measure (\<lambda>(r, ic, rep, b, a). length a)") auto

definition replace_all :: "re \<Rightarrow> bool \<Rightarrow> string \<Rightarrow> string \<Rightarrow> string" where
  "replace_all r ic rep s = replace_from r ic rep [] s"

text \<open>The same with a pattern that is not global: the first match only.\<close>

definition replace_first :: "re \<Rightarrow> bool \<Rightarrow> string \<Rightarrow> string \<Rightarrow> string" where
  "replace_first r ic rep s =
     (case search r ic [] s of
        None \<Rightarrow> s
      | Some (st, (b', a', c)) \<Rightarrow> take (length st) s @ rep @ a')"

text \<open>Shorthands for writing the patterns of the source.\<close>

definition seqs :: "re list \<Rightarrow> re" where
  "seqs rs = foldr Seq rs Eps"

definition alts :: "re list \<Rightarrow> re" where
  "alts rs = (case rs of [] \<Rightarrow> Eps | _ \<Rightarrow> foldr Alt (butlast rs) (last rs))"

definition Plus :: "re \<Rightarrow> re" where
  "Plus r = Seq r (Star r)"

definition AtLeast :: "nat \<Rightarrow> re \<Rightarrow> re" where
  "AtLeast n r = foldr Seq (replicate n r) (Star r)"

definition ch :: "char \<Rightarrow> re" where
  "ch c = One [Lit c]"

definition ws :: re where
  "ws = Star (One [SpaceC])"

definition ws1 :: re where
  "ws1 = Plus (One [SpaceC])"

definition word1 :: re where
  "word1 = Plus (One [WordC])"



section \<open>Types of the schema model\<close>

datatype SQLDialect = MYSQL | POSTGRESQL | SQLITE | AUTO

datatype FieldConstraintType = FC_PRIMARY_KEY | FC_UNIQUE | FC_FOREIGN_KEY | FC_CHECK | FC_AUTO_INCREMENT

datatype TableConstraintType = TC_PRIMARY_KEY | TC_FOREIGN_KEY | TC_UNIQUE | TC_INDEX

record FieldConstraint =
  fc_type :: FieldConstraintType
  fc_value :: "string option"

record Reference =
  ref_table :: string
  ref_fields :: "string list"

record TableConstraint =
  tc_type :: TableConstraintType
  tc_fields :: "string list"
  tc_reference :: "Reference option"

record FieldSchema =
  fs_name :: string
  fs_type :: string
  fs_nullable :: bool
  fs_defaultValue :: "string option"
  fs_constraints :: "FieldConstraint list"
  fs_comment :: "string option"

record TableSchema =
  ts_name :: string
  ts_fields :: "FieldSchema list"
  ts_constraints :: "TableConstraint list"

text \<open>
  The error classes, without their message. \<open>SQLParseError\<close> keeps its line;
  \<open>TypeMappingError\<close> keeps the SQL type and the dialect; \<open>RangeError\<close> is what the
  runtime throws when the call stack overflows.
\<close>

datatype error =
    SQLParseError "nat option"
  | TypeMappingError string SQLDialect
  | RangeError

section \<open>Type Mapper\<close>

text \<open>
  The mapping tables are JavaScript objects, passed and stored by reference: the
  constructor keeps the caller's \<open>customMappings\<close> object, \<open>getDefaultMappings\<close> returns
  a built-in table itself. So objects live in a store. A table object maps SQL type
  names to target type names; a \<open>CustomTypeMappings\<close> object maps dialects to table
  objects. \<open>next_addr\<close> is the next address \<open>{}\<close> or an object spread allocates.
\<close>

record store =
  table_objs :: "nat \<rightharpoonup> (string \<rightharpoonup> string)"
  dict_objs :: "nat \<rightharpoonup> (SQLDialect \<rightharpoonup> nat)"
  next_addr :: nat

definition table_at :: "store \<Rightarrow> nat \<Rightarrow> (string \<rightharpoonup> string)" where
  "table_at h a = (case table_objs h a of Some t \<Rightarrow> t | None \<Rightarrow> Map.empty)"

definition dict_at :: "store \<Rightarrow> nat \<Rightarrow> (SQLDialect \<rightharpoonup> nat)" where
  "dict_at h a = (case dict_objs h a of Some d \<Rightarrow> d | None \<Rightarrow> Map.empty)"

definition alloc_table :: "store \<Rightarrow> (string \<rightharpoonup> string) \<Rightarrow> store \<times> nat" where
  "alloc_table h t = (h\<lparr>table_objs := (table_objs h)(next_addr h \<mapsto> t), next_addr := Suc (next_addr h)\<rparr>, next_addr h)"

definition alloc_dict :: "store \<Rightarrow> (SQLDialect \<rightharpoonup> nat) \<Rightarrow> store \<times> nat" where
  "alloc_dict h d = (h\<lparr>dict_objs := (dict_objs h)(next_addr h \<mapsto> d), next_addr := Suc (next_addr h)\<rparr>, next_addr h)"

definition mysql_mappings :: "(string \<times> string) list" where
  "mysql_mappings =
    [(''int'', ''number''), (''bigint'', ''number''), (''tinyint'', ''number''),
     (''smallint'', ''number''), (''mediumint'', ''number''), (''float'', ''number''),
     (''double'', ''number''), (''decimal'', ''number''), (''numeric'', ''number''),
     (''varchar'', ''string''), (''char'', ''string''), (''text'', ''string''),
     (''longtext'', ''string''), (''mediumtext'', ''string''), (''tinytext'', ''string''),
     (''datetime'', ''Date''), (''timestamp'', ''Date''), (''date'', ''Date''),
     (''time'', ''string''), (''year'', ''number''), (''boolean'', ''boolean''),
     (''tinyint(1)'', ''boolean''), (''bit'', ''boolean''), (''json'', ''object''),
     (''blob'', ''Buffer''), (''longblob'', ''Buffer''), (''mediumblob'', ''Buffer''),
     (''tinyblob'', ''Buffer''), (''binary'', ''Buffer''), (''varbinary'', ''Buffer'')]"

definition postgresql_mappings :: "(string \<times> string) list" where
  "postgresql_mappings =
    [(''integer'', ''number''), (''int'', ''number''), (''int4'', ''number''),
     (''bigint'', ''number''), (''int8'', ''number''), (''smallint'', ''number''),
     (''int2'', ''number''), (''real'', ''number''), (''float4'', ''number''),
     (''double precision'', ''number''), (''float8'', ''number''), (''numeric'', ''number''),
     (''decimal'', ''number''), (''varchar'', ''string''), (''character varying'', ''string''),
     (''char'', ''string''), (''character'', ''string''), (''text'', ''string''),
     (''timestamp'', ''Date''), (''timestamptz'', ''Date''),
     (''timestamp with time zone'', ''Date''), (''timestamp without time zone'', ''Date''),
     (''date'', ''Date''), (''time'', ''string''), (''timetz'', ''string''),
     (''time with time zone'', ''string''), (''time without time zone'', ''string''),
     (''boolean'', ''boolean''), (''bool'', ''boolean''), (''json'', ''object''),
     (''jsonb'', ''object''), (''uuid'', ''string''), (''bytea'', ''Buffer''),
     (''serial'', ''number''), (''bigserial'', ''number''), (''smallserial'', ''number'')]"

definition sqlite_mappings :: "(string \<times> string) list" where
  "sqlite_mappings =
    [(''integer'', ''number''), (''int'', ''number''), (''real'', ''number''),
     (''float'', ''number''), (''double'', ''number''), (''text'', ''string''),
     (''varchar'', ''string''), (''char'', ''string''), (''blob'', ''Buffer''),
     (''numeric'', ''number''), (''decimal'', ''number''), (''boolean'', ''boolean''),
     (''datetime'', ''Date''), (''timestamp'', ''Date''), (''date'', ''Date''),
     (''time'', ''string'')]"

text \<open>
  \<open>TYPE_MAPPINGS\<close>: the static object with one table per dialect, at fixed addresses
  (no \<open>auto\<close> key). \<open>initial_store\<close> is the store when the class has been loaded.
\<close>

fun TYPE_MAPPINGS :: "SQLDialect \<Rightarrow> nat option" where
  "TYPE_MAPPINGS MYSQL = Some 0"
| "TYPE_MAPPINGS POSTGRESQL = Some 1"
| "TYPE_MAPPINGS SQLITE = Some 2"
| "TYPE_MAPPINGS AUTO = None"

definition initial_store :: store where
  "initial_store =
     \<lparr>table_objs = [0 \<mapsto> map_of mysql_mappings, 1 \<mapsto> map_of postgresql_mappings, 2 \<mapsto> map_of sqlite_mappings],
      dict_objs = Map.empty,
      next_addr = 3\<rparr>"

record TypeMapper =
  customMappings :: nat
  strictMode :: bool

record TypeMapperOptions =
  opt_customMappings :: "nat option"
  opt_strictMode :: "bool option"

text \<open>The constructor: \<open>options.customMappings || {}\<close> and \<open>options.strictMode || false\<close>.\<close>

definition new_TypeMapper :: "store \<Rightarrow> TypeMapperOptions \<Rightarrow> store \<times> TypeMapper" where
  "new_TypeMapper h options =
     (let sm = (case opt_strictMode options of Some v \<Rightarrow> v | None \<Rightarrow> False) in
      case opt_customMappings options of
        Some a \<Rightarrow> (h, \<lparr>customMappings = a, strictMode = sm\<rparr>)
      | None \<Rightarrow> (case alloc_dict h Map.empty of (h', a) \<Rightarrow> (h', \<lparr>customMappings = a, strictMode = sm\<rparr>)))"

text \<open>A property read used as a condition: an absent key and the empty string are falsy.\<close>

definition truthy :: "string option \<Rightarrow> string option" where
  "truthy v = (case v of None \<Rightarrow> None | Some s \<Rightarrow> if s = [] then None else Some s)"

definition detectDialect :: "string \<Rightarrow> SQLDialect" where
  "detectDialect sqlContent =
     (let content = toLowerCase sqlContent in
      if str_includes content ''serial'' \<or>
         str_includes content ''bigserial'' \<or>
         str_includes content ''smallserial'' \<or>
         str_includes content ''timestamptz'' \<or>
         str_includes content ''jsonb'' \<or>
         str_includes content ''uuid'' \<or>
         str_includes content ''bytea'' \<or>
         str_includes content ''double precision'' \<or>
         str_includes content ''character varying'' then POSTGRESQL
      else if str_includes content ''auto_increment'' \<or>
         str_includes content ''tinyint'' \<or>
         str_includes content ''mediumint'' \<or>
         str_includes content ''longtext'' \<or>
         str_includes content ''mediumtext'' \<or>
         str_includes content ''tinytext'' \<or>
         str_includes content ''longblob'' \<or>
         str_includes content ''mediumblob'' \<or>
         str_includes content ''tinyblob'' \<or>
         str_includes content ''engine='' \<or>
         str_includes content ''charset='' \<or>
         str_includes content ''collate='' then MYSQL
      else if str_includes content ''autoincrement'' \<or>
         str_includes content ''without rowid'' \<or>
         str_includes content ''pragma'' then SQLITE
      else MYSQL)"

text \<open>
  \<open>getMergedMappings\<close>: the object spread \<open>{...defaultMappings, ...customMappings}\<close>
  allocates a new table object, later keys winning; \<open>None\<close> is \<open>null\<close>.
\<close>

definition getMergedMappings :: "store \<Rightarrow> TypeMapper \<Rightarrow> SQLDialect \<Rightarrow> store \<times> nat option" where
  "getMergedMappings h this dialect =
     (let actualDialect = (if dialect = AUTO then MYSQL else dialect) in
      case TYPE_MAPPINGS actualDialect of
        None \<Rightarrow> (h, None)
      | Some da \<Rightarrow>
          (let custom = (case dict_at h (customMappings this) actualDialect of
                           Some ca \<Rightarrow> table_at h ca
                         | None \<Rightarrow> Map.empty) in
           case alloc_table h (table_at h da ++ custom) of (h', a) \<Rightarrow> (h', Some a)))"

definition TINYINT1_REGEX :: re where
  "TINYINT1_REGEX = seqs [Bol, Str ''tinyint'', ws, ch CHR ''('', ws, ch CHR ''1'', ws, ch CHR '')'']"

definition ENUM_REGEX :: re where
  "ENUM_REGEX = seqs [Bol, Str ''enum'', ws, ch CHR ''('']"

definition SET_REGEX :: re where
  "SET_REGEX = seqs [Bol, Str ''set'', ws, ch CHR ''('']"

definition ARRAY_SUFFIX_REGEX :: re where
  "ARRAY_SUFFIX_REGEX = seqs [Str ''[]'', Eol]"

definition SIZE_SPEC_REGEX :: re where
  "SIZE_SPEC_REGEX = seqs [ch CHR ''('', Star (NoneOf [Lit CHR '')'']), ch CHR '')'']"

definition SIGNEDNESS_REGEX :: re where
  "SIGNEDNESS_REGEX = seqs [ws1, Grp 1 (Alt (Str ''unsigned'') (Str ''signed'')), Eol]"

definition normalizeType :: "string \<Rightarrow> string" where
  "normalizeType sqlType =
     str_trim
       (replace_all ws1 False '' ''
         (replace_first SIGNEDNESS_REGEX True []
           (replace_all SIZE_SPEC_REGEX False []
             (str_trim (toLowerCase sqlType)))))"

definition findPartialMatch :: "string \<Rightarrow> (string \<rightharpoonup> string) \<Rightarrow> string option" where
  "findPartialMatch normalizedType mappings =
     (if normalizedType = ''tinyint'' \<and> truthy (mappings ''tinyint(1)'') \<noteq> None
      then Some (case truthy (mappings ''tinyint'') of Some v \<Rightarrow> v | None \<Rightarrow> ''number'')
      else (let baseType = hd (str_split CHR '' '' normalizedType) in
            if baseType \<noteq> [] \<and> truthy (mappings baseType) \<noteq> None
            then mappings baseType else None))"

text \<open>
  \<open>mapType\<close> and \<open>handleSpecialCases\<close> call each other: a PostgreSQL array type maps its
  element type first. When stripping a final \<open>[]\<close> leaves the text as it was (the \<open>[]\<close>
  is not at the end), the call repeats itself without end and the runtime throws
  \<open>RangeError\<close>. \<open>console.warn\<close> is not modelled.
\<close>

function mapType :: "store \<Rightarrow> TypeMapper \<Rightarrow> string \<Rightarrow> SQLDialect \<Rightarrow> store \<times> (error + string)"
  and handleSpecialCases ::
    "store \<Rightarrow> TypeMapper \<Rightarrow> string \<Rightarrow> SQLDialect \<Rightarrow> nat \<Rightarrow> store \<times> (error + string option)" where
  "mapType h this sqlType dialect =
     (if sqlType = [] then (h, Inr ''any'')
      else
        (let cleanType = str_trim (toLowerCase sqlType) in
         case getMergedMappings h this dialect of
           (h1, None) \<Rightarrow>
             if strictMode this then (h1, Inl (TypeMappingError sqlType dialect))
             else mapType h1 this sqlType MYSQL
         | (h1, Some dialectMappings) \<Rightarrow>
             (case handleSpecialCases h1 this cleanType dialect dialectMappings of
                (h2, Inl e) \<Rightarrow> (h2, Inl e)
              | (h2, Inr specialCase) \<Rightarrow>
                  (case truthy specialCase of
                     Some v \<Rightarrow> (h2, Inr v)
                   | None \<Rightarrow>
                       (let normalizedType = normalizeType cleanType;
                            mappings = table_at h2 dialectMappings in
                        case truthy (mappings normalizedType) of
                          Some v \<Rightarrow> (h2, Inr v)
                        | None \<Rightarrow>
                            (case truthy (findPartialMatch normalizedType mappings) of
                               Some v \<Rightarrow> (h2, Inr v)
                             | None \<Rightarrow>
                                 if strictMode this then (h2, Inl (TypeMappingError sqlType dialect))
                                 else (h2, Inr ''any'')))))))"
| "handleSpecialCases h this cleanType dialect mappings =
     (if dialect = MYSQL \<and> re_test TINYINT1_REGEX False cleanType
        then (h, Inr (Some (case truthy (table_at h mappings ''tinyint(1)'') of
                              Some v \<Rightarrow> v | None \<Rightarrow> ''boolean'')))
      else if dialect = MYSQL \<and> re_test ENUM_REGEX False cleanType then (h, Inr (Some ''string''))
      else if dialect = MYSQL \<and> re_test SET_REGEX False cleanType then (h, Inr (Some ''string''))
      else if dialect = POSTGRESQL \<and> str_includes cleanType ''[]''
        then (let baseType = str_trim (replace_first ARRAY_SUFFIX_REGEX False [] cleanType) in
              if length baseType < length cleanType
              then (case mapType h this baseType dialect of
                      (h', Inl e) \<Rightarrow> (h', Inl e)
                    | (h', Inr baseMapping) \<Rightarrow> (h', Inr (Some (baseMapping @ ''[]''))))
              else (h, Inl RangeError))
      else if dialect = POSTGRESQL \<and> re_test ENUM_REGEX False cleanType then (h, Inr (Some ''string''))
      else if dialect = SQLITE \<and> str_includes cleanType ''int'' \<and> \<not> str_includes cleanType ''point''
        then (h, Inr (Some ''number''))
      else (h, Inr None))"
  by pat_completeness auto
termination
proof -
  have A: "2 * length (str_trim (toLowerCase s)) < Suc (2 * length s)" for s
  proof -
    have "length (str_trim (toLowerCase s)) \<le> length s"
      unfolding str_trim_def toLowerCase_def
      by (metis length_dropWhile_le length_map length_rev order_trans)
    then show ?thesis by simp
  qed
  have B: "d \<noteq> AUTO \<Longrightarrow> TYPE_MAPPINGS d = None \<Longrightarrow> False" for d
    by (cases d) simp_all
  show ?thesis
    apply (relation "measure (\<lambda>x. case x of
          Inl (h, this, sqlType, dialect) \<Rightarrow> 2 * length sqlType + 1
        | Inr (h, this, cleanType, dialect, mappings) \<Rightarrow> 2 * length cleanType)")
       apply simp
      apply (auto simp: getMergedMappings_def alloc_table_def Let_def A
        split: option.splits if_splits dest: B)
    done
qed



definition clearCustomMappings :: "store \<Rightarrow> TypeMapper \<Rightarrow> SQLDialect \<Rightarrow> store" where
  "clearCustomMappings h this dialect =
     (case dict_at h (customMappings this) dialect of
        Some ta \<Rightarrow>
          (case alloc_table h Map.empty of (h', ta') \<Rightarrow>
             h'\<lparr>dict_objs := (dict_objs h')(customMappings this \<mapsto>
                             (dict_at h' (customMappings this))(dialect \<mapsto> ta'))\<rparr>)
      | None \<Rightarrow> h)"

text \<open>Both getters return a reference: the stored table, or a new \<open>{}\<close>.\<close>

definition getCustomMappings :: "store \<Rightarrow> TypeMapper \<Rightarrow> SQLDialect \<Rightarrow> store \<times> nat" where
  "getCustomMappings h this dialect =
     (case dict_at h (customMappings this) dialect of
        Some ta \<Rightarrow> (h, ta)
      | None \<Rightarrow> alloc_table h Map.empty)"



text \<open>The signature substrings \<open>detectDialect\<close> looks for, per dialect.\<close>

definition postgresql_signatures :: "string list" where
  "postgresql_signatures =
     [''serial'', ''bigserial'', ''smallserial'', ''timestamptz'', ''jsonb'', ''uuid'', ''bytea'',
      ''double precision'', ''character varying'']"

definition mysql_signatures :: "string list" where
  "mysql_signatures =
     [''auto_increment'', ''tinyint'', ''mediumint'', ''longtext'', ''mediumtext'', ''tinytext'',
      ''longblob'', ''mediumblob'', ''tinyblob'', ''engine='', ''charset='', ''collate='']"

definition sqlite_signatures :: "string list" where
  "sqlite_signatures = [''autoincrement'', ''without rowid'', ''pragma'']"

definition has_signature :: "string \<Rightarrow> string list \<Rightarrow> bool" where
  "has_signature sqlContent sigs = list_ex (str_includes (toLowerCase sqlContent)) sigs"




definition frame :: "store \<Rightarrow> store \<Rightarrow> bool" where
  "frame h h' =
     (dict_objs h' = dict_objs h \<and> next_addr h \<le> next_addr h' \<and>
      (\<forall>a. a < next_addr h \<longrightarrow> table_objs h' a = table_objs h a))"

section \<open>Input validation\<close>

text \<open>The limits are JavaScript numbers; here integers.\<close>

record ValidationLimits =
  maxSqlLength :: int
  maxFileSize :: int
  maxMemoryUsage :: int
  maxTableCount :: int
  maxFieldCount :: int

definition DEFAULT_VALIDATION_LIMITS :: ValidationLimits where
  "DEFAULT_VALIDATION_LIMITS =
     \<lparr>maxSqlLength = 50 * 1024 * 1024,
      maxFileSize = 100 * 1024 * 1024,
      maxMemoryUsage = 200 * 1024 * 1024,
      maxTableCount = 1000,
      maxFieldCount = 500\<rparr>"

definition any_char :: re where
  "any_char = One [Dot]"

text \<open>Each pattern with its \<open>i\<close> flag.\<close>

definition DANGEROUS_SQL_PATTERNS :: "(re \<times> bool) list" where
  "DANGEROUS_SQL_PATTERNS =
    [(seqs [ch CHR '';'', ws,
            Grp 1 (alts [Str ''DROP'', Str ''DELETE'', Str ''UPDATE'', Str ''ALTER'']), ws1], True),
     (seqs [ch CHR '';'', ws, Str ''INSERT'', ws1,
            NegAhead (seqs [Str ''INTO'', ws1, Plus (One [Lit CHR 0x60, WordC]), ws, ch CHR ''(''])], True),
     (seqs [WordB, Str ''UNION'', WordB, Star any_char, WordB, Str ''SELECT'', WordB], True),
     (seqs [Str ''<script'', Star (NoneOf [Lit CHR ''>'']), ch CHR ''>'', LazyStar any_char,
            Str ''</script>''], True),
     (Grp 1 (alts [ch CHR ''|'', Str ''$('', Str ''${'']), False),
     (seqs [ch CHR ''&'',
            NegAhead (seqs [Plus (One [Rng CHR ''a'' CHR ''z'', Rng CHR ''A'' CHR ''Z'']), ch CHR '';''])], False),
     (seqs [Str [CHR ''/'', CHR ''*''], Star any_char, Str ''..'', One [Lit CHR ''/'', Lit CHR 0x5C],
            Star any_char, Str [CHR ''*'', CHR ''/'']], True),
     (seqs [Str ''0x'', AtLeast 16 (One [Rng CHR ''0'' CHR ''9'', Rng CHR ''a'' CHR ''f''])], True),
     (seqs [Str [CHR ''/'', CHR ''*''], Star any_char, Str [CHR ''*'', CHR ''/''], Star any_char, WordB,
            Grp 1 (alts [Str ''DROP'', Str ''DELETE'', Str ''UPDATE'', Str ''UNION'', Str ''SELECT'']),
            WordB], True)]"

definition MALFORMED_SQL_PATTERNS :: "(re \<times> bool) list" where
  "MALFORMED_SQL_PATTERNS =
    [(AtLeast 10 (ch CHR ''(''), False),
     (seqs [Str ''CREATE'', ws1, Str ''TABLE'', ws1, word1, ws, Opt (ch CHR '';''), ws, Eol], True)]"

definition CONTROL_CHARS :: "cls list" where
  "CONTROL_CHARS =
     [Rng CHR 0x00 CHR 0x08, Lit CHR 0x0B, Lit CHR 0x0C, Rng CHR 0x0E CHR 0x1F, Lit CHR 0x7F]"

definition HAS_CREATE_TABLE_REGEX :: re where
  "HAS_CREATE_TABLE_REGEX = seqs [Str ''CREATE'', ws1, Str ''TABLE'']"

text \<open>
  \<open>hasUnmatchedDelimiters\<close>: the loop over the characters, with the one before
  (\<open>None\<close> at the start). A character after a backslash is skipped; more closing than
  opening parentheses returns at once.
\<close>

primrec unmatched_loop :: "char option \<Rightarrow> string \<Rightarrow> int \<Rightarrow> bool \<Rightarrow> bool \<Rightarrow> bool \<Rightarrow> bool" where
  "unmatched_loop prevChar [] parenCount inSingleQuote inDoubleQuote inBacktick =
     (parenCount \<noteq> 0 \<or> inSingleQuote \<or> inDoubleQuote \<or> inBacktick)"
| "unmatched_loop prevChar (c # cs) parenCount inSingleQuote inDoubleQuote inBacktick =
     (if prevChar = Some (CHR 0x5C)
      then unmatched_loop (Some c) cs parenCount inSingleQuote inDoubleQuote inBacktick
      else
        (let inSingleQuote' =
               (if c = CHR 0x27 \<and> \<not> inDoubleQuote \<and> \<not> inBacktick then \<not> inSingleQuote
                else inSingleQuote);
             inDoubleQuote' =
               (if c = CHR 0x27 \<and> \<not> inDoubleQuote \<and> \<not> inBacktick then inDoubleQuote
                else if c = CHR 0x22 \<and> \<not> inSingleQuote \<and> \<not> inBacktick then \<not> inDoubleQuote
                else inDoubleQuote);
             inBacktick' =
               (if c = CHR 0x27 \<and> \<not> inDoubleQuote \<and> \<not> inBacktick then inBacktick
                else if c = CHR 0x22 \<and> \<not> inSingleQuote \<and> \<not> inBacktick then inBacktick
                else if c = CHR 0x60 \<and> \<not> inSingleQuote \<and> \<not> inDoubleQuote then \<not> inBacktick
                else inBacktick)
         in if \<not> inSingleQuote' \<and> \<not> inDoubleQuote' \<and> \<not> inBacktick'
            then (if c = CHR ''('' then
                    unmatched_loop (Some c) cs (parenCount + 1) inSingleQuote' inDoubleQuote' inBacktick'
                  else if c = CHR '')'' then
                    (if parenCount - 1 < 0 then True
                     else unmatched_loop (Some c) cs (parenCount - 1) inSingleQuote' inDoubleQuote' inBacktick')
                  else unmatched_loop (Some c) cs parenCount inSingleQuote' inDoubleQuote' inBacktick')
            else unmatched_loop (Some c) cs parenCount inSingleQuote' inDoubleQuote' inBacktick'))"

definition hasUnmatchedDelimiters :: "string \<Rightarrow> bool" where
  "hasUnmatchedDelimiters sql = unmatched_loop None sql 0 False False False"

text \<open>
  \<open>validateSqlInput\<close>: \<open>None\<close> when the input passes, the error thrown otherwise. The
  input is a string, so the \<open>null\<close>, \<open>undefined\<close> and type tests cannot fail. The
  control character test \<open>count > sql.length * 0.01\<close> is written on integers.
\<close>

definition validateSqlInput :: "string \<Rightarrow> ValidationLimits \<Rightarrow> error option" where
  "validateSqlInput sql limits =
     (if length sql = 0 then Some (SQLParseError None)
      else if int (length sql) > maxSqlLength limits then Some (SQLParseError None)
      else if list_ex (\<lambda>(pattern, ic). re_test pattern ic sql) DANGEROUS_SQL_PATTERNS
        then Some (SQLParseError None)
      else if list_ex (\<lambda>(pattern, ic). re_test pattern ic sql) MALFORMED_SQL_PATTERNS
        then Some (SQLParseError None)
      else if hasUnmatchedDelimiters sql then Some (SQLParseError None)
      else if 100 * int (length (filter (in_class False CONTROL_CHARS) sql)) > int (length sql)
        then Some (SQLParseError None)
      else if \<not> re_test HAS_CREATE_TABLE_REGEX True sql then Some (SQLParseError None)
      else None)"

definition sanitizeSqlInput :: "string \<Rightarrow> string" where
  "sanitizeSqlInput sql =
     (if sql = [] then []
      else
        str_trim
          (replace_all (ch CHR 0x0D) False [CHR 0x0A]
            (replace_all (Str [CHR 0x0D, CHR 0x0A]) False [CHR 0x0A]
              (replace_all (One CONTROL_CHARS) False []
                (replace_all (AtLeast 4 (One [SpaceC])) False '' ''
                  (replace_all (ch CHR 0x00) False [] sql))))))"

definition validateTableCount :: "nat \<Rightarrow> ValidationLimits \<Rightarrow> error option" where
  "validateTableCount tableCount limits =
     (if int tableCount > maxTableCount limits then Some (SQLParseError None) else None)"

definition validateFieldCount :: "nat \<Rightarrow> string \<Rightarrow> ValidationLimits \<Rightarrow> error option" where
  "validateFieldCount fieldCount tableName limits =
     (if int fieldCount > maxFieldCount limits then Some (SQLParseError None) else None)"

section \<open>Statement Extractor\<close>

definition CREATE_TABLE_REGEX :: re where
  "CREATE_TABLE_REGEX =
     seqs [Str ''CREATE'', ws1, Str ''TABLE'', ws1,
       Opt (seqs [Str ''IF'', ws1, Str ''NOT'', ws1, Str ''EXISTS'', ws1]),
       alts [seqs [ch CHR 0x60, Grp 1 (Plus (NoneOf [Lit CHR 0x60])), ch CHR 0x60],
             seqs [ch CHR 0x22, Grp 2 (Plus (NoneOf [Lit CHR 0x22])), ch CHR 0x22],
             Grp 3 word1],
       ws, ch CHR ''('',
       Grp 4 (Star (Alt (NoneOf [Lit CHR ''('', Lit CHR '')''])
                        (seqs [ch CHR ''('', Star (NoneOf [Lit CHR '')'']), ch CHR '')'']))),
       ch CHR '')'',
       Opt (seqs [ws, Str ''ENGINE'', ws, ch CHR ''='', ws, word1]),
       Opt (seqs [ws, Str ''DEFAULT'', ws1, Str ''CHARSET'', ws, ch CHR ''='', ws,
                  Plus (One [WordC, Lit CHR ''-''])]),
       Opt (seqs [ws, Str ''COLLATE'', ws, ch CHR ''='', ws,
                  Plus (One [WordC, Lit CHR ''_'', Lit CHR ''-''])]),
       Opt (seqs [ws, Str ''AUTO_INCREMENT'', ws, ch CHR ''='', ws, Plus (One [DigitC])]),
       Opt (seqs [ws, Str ''COMMENT'', ws, ch CHR ''='', ws,
                  ch CHR 0x27, Star (NoneOf [Lit CHR 0x27]), ch CHR 0x27]),
       Opt (ch CHR '';'')]"

record RawTableDefinition =
  rt_name :: string
  rt_fieldsString :: string
  rt_lineNumber :: nat
  rt_originalMatch :: string

text \<open>\<open>a || b\<close> on capture groups: the first that took part in the match and is not empty.\<close>

definition or_else :: "string option \<Rightarrow> string option \<Rightarrow> string option" where
  "or_else a b = (case truthy a of Some v \<Rightarrow> Some v | None \<Rightarrow> b)"

definition calculateLineNumber :: "string \<Rightarrow> nat \<Rightarrow> nat" where
  "calculateLineNumber sql position =
     (if position \<ge> length sql then 1
      else length (str_split (CHR 0x0A) (take position sql)))"

text \<open>The body of the loop of \<open>parse\<close>, for one match.\<close>

definition raw_table :: "string \<Rightarrow> string \<times> mstate \<Rightarrow> error + RawTableDefinition" where
  "raw_table sql mt =
     (case truthy (or_else (or_else (group 1 mt) (group 2 mt)) (group 3 mt)) of
        None \<Rightarrow> Inl (SQLParseError None)
      | Some tableName \<Rightarrow>
          (case truthy (group 4 mt) of
             None \<Rightarrow> Inl (SQLParseError None)
           | Some fieldsString \<Rightarrow>
               Inr \<lparr>rt_name = str_trim tableName,
                    rt_fieldsString = str_trim fieldsString,
                    rt_lineNumber = (case str_indexOf sql tableName of
                                       Some originalMatch \<Rightarrow> calculateLineNumber sql originalMatch
                                     | None \<Rightarrow> 1),
                    rt_originalMatch = matched mt\<rparr>))"

primrec raw_tables :: "string \<Rightarrow> (string \<times> mstate) list \<Rightarrow> error + RawTableDefinition list" where
  "raw_tables sql [] = Inr []"
| "raw_tables sql (mt # mts) =
     (case raw_table sql mt of
        Inl e \<Rightarrow> Inl e
      | Inr t \<Rightarrow> (case raw_tables sql mts of Inl e \<Rightarrow> Inl e | Inr ts \<Rightarrow> Inr (t # ts)))"

definition parse :: "string \<Rightarrow> error + RawTableDefinition list" where
  "parse sql =
     (case validateSqlInput sql DEFAULT_VALIDATION_LIMITS of
        Some e \<Rightarrow> Inl e
      | None \<Rightarrow>
          (let sanitizedSql = sanitizeSqlInput sql in
           case raw_tables sql (exec_all CREATE_TABLE_REGEX True [] sanitizedSql) of
             Inl e \<Rightarrow> Inl e
           | Inr tables \<Rightarrow> if length tables = 0 then Inl (SQLParseError None) else Inr tables))"










section \<open>Field Parser\<close>

definition paren_args :: re where
  "paren_args = seqs [ch CHR ''('', Star (NoneOf [Lit CHR '')'']), ch CHR '')'']"

definition FIELD_DEFINITION_REGEX :: re where
  "FIELD_DEFINITION_REGEX =
     seqs [Bol, ws,
       alts [seqs [ch CHR 0x60, Grp 1 (Plus (NoneOf [Lit CHR 0x60])), ch CHR 0x60],
             seqs [ch CHR 0x22, Grp 2 (Plus (NoneOf [Lit CHR 0x22])), ch CHR 0x22],
             Grp 3 word1],
       ws1,
       Grp 4 (Plus (seqs [word1, Opt paren_args, Opt (seqs [ws, Str ''[]'']),
                          Star (seqs [ws1, alts [Str ''UNSIGNED'', Str ''SIGNED'', Str ''ZEROFILL'']])])),
       ws,
       Grp 5 (LazyStar any_char),
       Eol]"

text \<open>The entries of \<open>CONSTRAINT_PATTERNS\<close> that the parser uses, all with the \<open>i\<close> flag.\<close>

definition NOT_NULL_PATTERN :: re where
  "NOT_NULL_PATTERN = seqs [WordB, Str ''NOT'', ws1, Str ''NULL'', WordB]"

definition PRIMARY_KEY_PATTERN :: re where
  "PRIMARY_KEY_PATTERN = seqs [WordB, Str ''PRIMARY'', ws1, Str ''KEY'', WordB]"

definition UNIQUE_PATTERN :: re where
  "UNIQUE_PATTERN = seqs [WordB, Str ''UNIQUE'', WordB]"

definition AUTO_INCREMENT_PATTERN :: re where
  "AUTO_INCREMENT_PATTERN = seqs [WordB, Str ''AUTO_INCREMENT'', WordB]"

definition COMMENT_PATTERN :: re where
  "COMMENT_PATTERN =
     seqs [WordB, Str ''COMMENT'', ws1, One [Lit CHR 0x27, Lit CHR 0x22],
       Grp 1 (seqs [Star (NoneOf [Lit CHR 0x27, Lit CHR 0x22, Lit CHR 0x5C]),
                    Star (seqs [ch CHR 0x5C, any_char,
                                Star (NoneOf [Lit CHR 0x27, Lit CHR 0x22, Lit CHR 0x5C])])]),
       One [Lit CHR 0x27, Lit CHR 0x22]]"

definition FOREIGN_KEY_PATTERN :: re where
  "FOREIGN_KEY_PATTERN =
     seqs [WordB, Str ''REFERENCES'', ws1, Grp 1 word1, ws, ch CHR ''('',
           Grp 2 (Plus (NoneOf [Lit CHR '')''])), ch CHR '')'']"

definition CHECK_PATTERN :: re where
  "CHECK_PATTERN =
     seqs [WordB, Str ''CHECK'', ws, ch CHR ''('', Grp 1 (Plus (NoneOf [Lit CHR '')''])), ch CHR '')'']"

definition isTableLevelConstraint :: "string \<Rightarrow> bool" where
  "isTableLevelConstraint definition' =
     (let trimmed = toUpperCase (str_trim definition') in
      str_startsWith trimmed ''PRIMARY KEY'' \<or>
      str_startsWith trimmed ''FOREIGN KEY'' \<or>
      str_startsWith trimmed ''UNIQUE'' \<or>
      str_startsWith trimmed ''INDEX'' \<or>
      str_startsWith trimmed ''KEY'' \<or>
      str_startsWith trimmed ''CONSTRAINT'' \<or>
      str_startsWith trimmed ''CHECK'')"

text \<open>
  \<open>splitFieldDefinitions\<close>: the loop over the characters, with the one before it
  (\<open>None\<close> at the start) and the loop's variables; \<open>quoteChar\<close> is \<open>None\<close> for the
  empty string. The loop returns \<open>definitions\<close> and \<open>currentDef\<close> as they are when it
  ends; the last definition is added after it.
\<close>

primrec split_loop ::
  "char option \<Rightarrow> string \<Rightarrow> string list \<Rightarrow> string \<Rightarrow> int \<Rightarrow> bool \<Rightarrow> char option
     \<Rightarrow> string list \<times> string" where
  "split_loop prevChar [] definitions currentDef parenDepth inQuotes quoteChar =
     (definitions, currentDef)"
| "split_loop prevChar (c # cs) definitions currentDef parenDepth inQuotes quoteChar =
     (let isQuote = ((c = CHR 0x22 \<or> c = CHR 0x27 \<or> c = CHR 0x60) \<and> prevChar \<noteq> Some (CHR 0x5C));
          inQuotes' = (if isQuote then (if \<not> inQuotes then True
                                        else if Some c = quoteChar then False else inQuotes)
                       else inQuotes);
          quoteChar' = (if isQuote then (if \<not> inQuotes then Some c
                                         else if Some c = quoteChar then None else quoteChar)
                        else quoteChar);
          parenDepth' = (if \<not> inQuotes' then
                           (if c = CHR ''('' then parenDepth + 1
                            else if c = CHR '')'' then parenDepth - 1 else parenDepth)
                         else parenDepth)
      in if \<not> inQuotes' \<and> parenDepth' = 0 \<and> c = CHR '',''
         then split_loop (Some c) cs (definitions @ [str_trim currentDef]) [] parenDepth' inQuotes' quoteChar'
         else split_loop (Some c) cs definitions (currentDef @ [c]) parenDepth' inQuotes' quoteChar')"

definition splitFieldDefinitions :: "string \<Rightarrow> string list" where
  "splitFieldDefinitions fieldsString =
     (case split_loop None fieldsString [] [] 0 False None of
        (definitions, currentDef) \<Rightarrow>
          if str_trim currentDef \<noteq> [] then definitions @ [str_trim currentDef] else definitions)"

definition parseConstraints :: "string \<Rightarrow> FieldConstraint list" where
  "parseConstraints constraintsString =
     (if re_test PRIMARY_KEY_PATTERN True constraintsString
        then [\<lparr>fc_type = FC_PRIMARY_KEY, fc_value = None\<rparr>] else []) @
     (if re_test UNIQUE_PATTERN True constraintsString
        then [\<lparr>fc_type = FC_UNIQUE, fc_value = None\<rparr>] else []) @
     (if re_test AUTO_INCREMENT_PATTERN True constraintsString
        then [\<lparr>fc_type = FC_AUTO_INCREMENT, fc_value = None\<rparr>] else []) @
     (case re_exec FOREIGN_KEY_PATTERN True constraintsString of
        Some foreignKeyMatch \<Rightarrow>
          [\<lparr>fc_type = FC_FOREIGN_KEY,
            fc_value = Some ((case group 1 foreignKeyMatch of Some t \<Rightarrow> t | None \<Rightarrow> []) @ ''('' @
                             (case group 2 foreignKeyMatch of Some t \<Rightarrow> t | None \<Rightarrow> []) @ '')'')\<rparr>]
      | None \<Rightarrow> []) @
     (case re_exec CHECK_PATTERN True constraintsString of
        Some checkMatch \<Rightarrow>
          (case truthy (group 1 checkMatch) of
             Some v \<Rightarrow> [\<lparr>fc_type = FC_CHECK, fc_value = Some v\<rparr>]
           | None \<Rightarrow> [])
      | None \<Rightarrow> [])"

definition determineNullability :: "string \<Rightarrow> bool" where
  "determineNullability constraintsString =
     (if re_test NOT_NULL_PATTERN True constraintsString then False
      else if re_test PRIMARY_KEY_PATTERN True constraintsString then False
      else True)"

text \<open>The patterns written inside \<open>extractDefaultValue\<close>, all with the \<open>i\<close> flag.\<close>

definition DEFAULT_KEYWORD :: re where
  "DEFAULT_KEYWORD = seqs [WordB, Str ''DEFAULT'', ws1]"

definition STOP_WORDS :: "re list" where
  "STOP_WORDS =
     [Str ''COMMENT'', seqs [Str ''NOT'', ws1, Str ''NULL''], Str ''NULL'',
      seqs [Str ''PRIMARY'', ws1, Str ''KEY''], Str ''UNIQUE'', Str ''AUTO_INCREMENT'',
      ch CHR '','', Eol]"

definition STOP_AFTER_PAREN :: re where
  "STOP_AFTER_PAREN = seqs [Bol, Grp 1 (alts STOP_WORDS)]"

definition STOP_AT_SPACE :: re where
  "STOP_AT_SPACE = seqs [Bol, Grp 1 (alts (seqs [Str ''ON'', ws1, Str ''UPDATE''] # STOP_WORDS))]"

definition ON_UPDATE :: re where
  "ON_UPDATE = seqs [Bol, Str ''ON'', ws1, Str ''UPDATE'']"

definition ON_UPDATE_VALUE :: re where
  "ON_UPDATE_VALUE = seqs [Bol, Str ''ON'', ws1, Str ''UPDATE'', ws1, Grp 1 (Plus (One [NonSpaceC]))]"

text \<open>
  The scanning loop of \<open>extractDefaultValue\<close>: \<open>prevChar\<close> is the character before, the
  text is what is left from position \<open>i\<close> on, and the result is \<open>defaultValue\<close> when the
  loop ends or breaks.
\<close>

primrec default_loop :: "char option \<Rightarrow> string \<Rightarrow> string \<Rightarrow> bool \<Rightarrow> char option \<Rightarrow> int \<Rightarrow> string" where
  "default_loop prevChar [] defaultValue inQuotes quoteChar parenCount = defaultValue"
| "default_loop prevChar (c # cs) defaultValue inQuotes quoteChar parenCount =
     (if \<not> inQuotes \<and> (c = CHR 0x22 \<or> c = CHR 0x27)
        then default_loop (Some c) cs (defaultValue @ [c]) True (Some c) parenCount
      else if inQuotes \<and> Some c = quoteChar \<and> prevChar \<noteq> Some (CHR 0x5C)
        then default_loop (Some c) cs (defaultValue @ [c]) False None parenCount
      else if inQuotes
        then default_loop (Some c) cs (defaultValue @ [c]) inQuotes quoteChar parenCount
      else if c = CHR ''(''
        then default_loop (Some c) cs (defaultValue @ [c]) inQuotes quoteChar (parenCount + 1)
      else if c = CHR '')''
        then (if parenCount - 1 = 0 \<and> str_includes (defaultValue @ [c]) ''('' \<and>
                 re_test STOP_AFTER_PAREN True (str_trim cs)
              then defaultValue @ [c]
              else default_loop (Some c) cs (defaultValue @ [c]) inQuotes quoteChar (parenCount - 1))
      else if parenCount = 0
        then (if isSpace c
              then (let remaining = str_trim (c # cs) in
                    if re_test STOP_AT_SPACE True remaining
                    then (if re_test ON_UPDATE True remaining
                          then (case re_exec ON_UPDATE_VALUE True remaining of
                                  Some onUpdateMatch \<Rightarrow>
                                    defaultValue @ '' ON UPDATE '' @
                                      (case group 1 onUpdateMatch of Some v \<Rightarrow> v | None \<Rightarrow> [])
                                | None \<Rightarrow>
                                    default_loop (Some c) cs defaultValue inQuotes quoteChar parenCount)
                          else defaultValue)
                    else default_loop (Some c) cs (defaultValue @ [c]) inQuotes quoteChar parenCount)
              else default_loop (Some c) cs (defaultValue @ [c]) inQuotes quoteChar parenCount)
      else default_loop (Some c) cs (defaultValue @ [c]) inQuotes quoteChar parenCount)"

text \<open>The quote stripping at the end of \<open>extractDefaultValue\<close>.\<close>

definition strip_simple_quotes :: "string \<Rightarrow> string" where
  "strip_simple_quotes defaultValue =
     (if (str_startsWith defaultValue [CHR 0x27] \<and> str_endsWith defaultValue [CHR 0x27] \<and>
          \<not> str_includes (str_slice1 defaultValue) '' '') \<or>
         (str_startsWith defaultValue [CHR 0x22] \<and> str_endsWith defaultValue [CHR 0x22] \<and>
          \<not> str_includes (str_slice1 defaultValue) '' '')
      then str_slice1 defaultValue else defaultValue)"

text \<open>
  \<open>extractDefaultValue\<close>: \<open>None\<close> is \<open>undefined\<close>. The match of \<open>DEFAULT\s+\<close> ends at
  \<open>startIndex\<close>; the character before it is the last of the match.
\<close>

definition extractDefaultValue :: "string \<Rightarrow> string option" where
  "extractDefaultValue constraintsString =
     (case re_exec DEFAULT_KEYWORD True constraintsString of
        None \<Rightarrow> None
      | Some (st, (b, a, c)) \<Rightarrow>
          Some (strip_simple_quotes
                  (str_trim (default_loop (case b of [] \<Rightarrow> None | p # ps \<Rightarrow> Some p) a [] False None 0))))"

definition extractComment :: "string \<Rightarrow> string option" where
  "extractComment constraintsString =
     (case re_exec COMMENT_PATTERN True constraintsString of
        None \<Rightarrow> None
      | Some match \<Rightarrow>
          (case truthy (group 1 match) of
             None \<Rightarrow> None
           | Some v \<Rightarrow>
               Some (replace_all (Str [CHR 0x5C, CHR 0x22]) False [CHR 0x22]
                      (replace_all (Str [CHR 0x5C, CHR 0x27]) False [CHR 0x27] v))))"

text \<open>\<open>parseField\<close>; \<open>lineNumber\<close> is \<open>None\<close> when the caller passes none.\<close>

definition parseField :: "string \<Rightarrow> nat option \<Rightarrow> error + FieldSchema" where
  "parseField fieldDefinition lineNumber =
     (if fieldDefinition = [] then Inl (SQLParseError lineNumber)
      else
        (let trimmedDef = str_trim fieldDefinition in
         if trimmedDef = [] then Inl (SQLParseError lineNumber)
         else if isTableLevelConstraint trimmedDef then Inl (SQLParseError lineNumber)
         else
           (case re_exec FIELD_DEFINITION_REGEX True trimmedDef of
              None \<Rightarrow> Inl (SQLParseError lineNumber)
            | Some match \<Rightarrow>
                (case truthy (or_else (or_else (group 1 match) (group 2 match)) (group 3 match)) of
                   None \<Rightarrow> Inl (SQLParseError lineNumber)
                 | Some fieldName \<Rightarrow>
                     (case truthy (group 4 match) of
                        None \<Rightarrow> Inl (SQLParseError lineNumber)
                      | Some fieldType \<Rightarrow>
                          (let constraintsString =
                                 (case truthy (group 5 match) of Some v \<Rightarrow> v | None \<Rightarrow> [])
                           in Inr \<lparr>fs_name = str_trim fieldName,
                                   fs_type = str_trim fieldType,
                                   fs_nullable = determineNullability constraintsString,
                                   fs_defaultValue = extractDefaultValue constraintsString,
                                   fs_constraints = parseConstraints constraintsString,
                                   fs_comment = truthy (extractComment constraintsString)\<rparr>))))))"

text \<open>
  The loop of \<open>parseFields\<close> from index \<open>i\<close> on: an empty definition and a table-level
  constraint are skipped, the first definition that fails ends the loop with an error
  that carries its position.
\<close>

primrec parse_definitions :: "nat \<Rightarrow> string list \<Rightarrow> error + FieldSchema list" where
  "parse_definitions i [] = Inr []"
| "parse_definitions i (d # ds) =
     (let fieldDef = str_trim d in
      if fieldDef = [] then parse_definitions (i + 1) ds
      else if isTableLevelConstraint fieldDef then parse_definitions (i + 1) ds
      else
        (case parseField fieldDef (Some (i + 1)) of
           Inl e \<Rightarrow> Inl (SQLParseError (Some (i + 1)))
         | Inr field \<Rightarrow>
             (case parse_definitions (i + 1) ds of
                Inl e \<Rightarrow> Inl e
              | Inr fields' \<Rightarrow> Inr (field # fields'))))"

definition parseFields :: "string \<Rightarrow> error + FieldSchema list" where
  "parseFields fieldsString =
     (if fieldsString = [] then Inl (SQLParseError None)
      else parse_definitions 0 (splitFieldDefinitions fieldsString))"

text \<open>
  For the splitting property: a text without its white space, and whether the split
  saw a top-level comma with only white space after the last one.
\<close>

definition strip_ws :: "string \<Rightarrow> string" where
  "strip_ws s = filter (\<lambda>c. \<not> isSpace c) s"

definition dropped_comma :: "string \<Rightarrow> bool" where
  "dropped_comma fieldsString =
     (case split_loop None fieldsString [] [] 0 False None of
        (definitions, currentDef) \<Rightarrow> definitions \<noteq> [] \<and> str_trim currentDef = [])"

definition is_field_segment :: "string \<Rightarrow> bool" where
  "is_field_segment d = (str_trim d \<noteq> [] \<and> \<not> isTableLevelConstraint (str_trim d))"

section \<open>Table Extractor\<close>

text \<open>The four \<open>TABLE_CONSTRAINT_PATTERNS\<close>, global and with the \<open>i\<close> flag.\<close>

definition clause_start :: re where
  "clause_start = seqs [alts [Bol, One [SpaceC], ch CHR '',''], ws]"

definition column_list :: "nat \<Rightarrow> re" where
  "column_list n = seqs [ch CHR ''('', Grp n (Plus (NoneOf [Lit CHR '')''])), ch CHR '')'']"

definition TC_PRIMARY_KEY_PATTERN :: re where
  "TC_PRIMARY_KEY_PATTERN =
     seqs [clause_start, Opt (seqs [Str ''CONSTRAINT'', ws1, word1, ws1]),
           Str ''PRIMARY'', ws1, Str ''KEY'', ws, column_list 1]"

definition TC_FOREIGN_KEY_PATTERN :: re where
  "TC_FOREIGN_KEY_PATTERN =
     seqs [clause_start, Opt (seqs [Str ''CONSTRAINT'', ws1, Grp 1 word1, ws1]),
           Str ''FOREIGN'', ws1, Str ''KEY'', ws, column_list 2, ws1,
           Str ''REFERENCES'', ws1, Grp 3 word1, ws, column_list 4]"

definition TC_UNIQUE_PATTERN :: re where
  "TC_UNIQUE_PATTERN =
     seqs [clause_start, Opt (seqs [Str ''CONSTRAINT'', ws1, Grp 1 word1, ws1]),
           Str ''UNIQUE'', Opt (seqs [ws1, Str ''KEY'', ws1, Grp 2 word1]), ws, column_list 3]"

definition TC_INDEX_PATTERN :: re where
  "TC_INDEX_PATTERN =
     seqs [clause_start,
           Alt (seqs [NegBehind [Lit CHR ''U'', Lit CHR ''N'', Lit CHR ''I'', Lit CHR ''Q'', Lit CHR ''U'',
                                 Lit CHR ''E'', SpaceC],
                      Str ''KEY''])
               (Str ''INDEX''),
           ws1, Grp 1 word1, ws, column_list 2]"

definition clean_field :: "string \<Rightarrow> string" where
  "clean_field field =
     (let cleanField = str_trim field in
      str_trim
        (if (str_startsWith cleanField [CHR 0x60] \<and> str_endsWith cleanField [CHR 0x60]) \<or>
            (str_startsWith cleanField [CHR 0x22] \<and> str_endsWith cleanField [CHR 0x22]) \<or>
            (str_startsWith cleanField [CHR 0x27] \<and> str_endsWith cleanField [CHR 0x27])
         then str_slice1 cleanField else cleanField))"

definition parseFieldList :: "string \<Rightarrow> string list" where
  "parseFieldList fieldList =
     (if fieldList = [] then []
      else filter (\<lambda>field. length field > 0) (map clean_field (str_split CHR '','' fieldList)))"

definition primary_key_constraint :: "string \<times> mstate \<Rightarrow> TableConstraint list" where
  "primary_key_constraint match =
     (case truthy (group 1 match) of
        Some cols \<Rightarrow> [\<lparr>tc_type = TC_PRIMARY_KEY, tc_fields = parseFieldList cols, tc_reference = None\<rparr>]
      | None \<Rightarrow> [])"

definition foreign_key_constraint :: "string \<times> mstate \<Rightarrow> TableConstraint list" where
  "foreign_key_constraint match =
     (case (truthy (group 2 match), truthy (group 3 match), truthy (group 4 match)) of
        (Some cols, Some referenceTable, Some refcols) \<Rightarrow>
          [\<lparr>tc_type = TC_FOREIGN_KEY, tc_fields = parseFieldList cols,
            tc_reference = Some \<lparr>ref_table = referenceTable, ref_fields = parseFieldList refcols\<rparr>\<rparr>]
      | _ \<Rightarrow> [])"

definition unique_constraint :: "string \<times> mstate \<Rightarrow> TableConstraint list" where
  "unique_constraint match =
     (case truthy (group 3 match) of
        Some cols \<Rightarrow> [\<lparr>tc_type = TC_UNIQUE, tc_fields = parseFieldList cols, tc_reference = None\<rparr>]
      | None \<Rightarrow> [])"

definition index_constraint :: "string \<times> mstate \<Rightarrow> TableConstraint list" where
  "index_constraint match =
     (case (truthy (group 1 match), truthy (group 2 match)) of
        (Some indexName, Some cols) \<Rightarrow>
          [\<lparr>tc_type = TC_INDEX, tc_fields = parseFieldList cols, tc_reference = None\<rparr>]
      | _ \<Rightarrow> [])"

definition extractTableConstraints :: "string \<Rightarrow> TableConstraint list" where
  "extractTableConstraints fieldsString =
     concat (map primary_key_constraint (exec_all TC_PRIMARY_KEY_PATTERN True [] fieldsString)) @
     concat (map foreign_key_constraint (exec_all TC_FOREIGN_KEY_PATTERN True [] fieldsString)) @
     concat (map unique_constraint (exec_all TC_UNIQUE_PATTERN True [] fieldsString)) @
     concat (map index_constraint (exec_all TC_INDEX_PATTERN True [] fieldsString))"

definition extractTableSchema :: "RawTableDefinition \<Rightarrow> error + TableSchema" where
  "extractTableSchema rawTable =
     (case parseFields (rt_fieldsString rawTable) of
        Inl e \<Rightarrow> Inl e
      | Inr fields' \<Rightarrow>
          Inr \<lparr>ts_name = rt_name rawTable,
               ts_fields = fields',
               ts_constraints = extractTableConstraints (rt_fieldsString rawTable)\<rparr>)"

text \<open>
  The loop of \<open>extractTables\<close>: an error of a table is thrown again with the table's
  line number.
\<close>

primrec table_schemas :: "RawTableDefinition list \<Rightarrow> error + TableSchema list" where
  "table_schemas [] = Inr []"
| "table_schemas (rawTable # rawTables) =
     (case extractTableSchema rawTable of
        Inl e \<Rightarrow> Inl (SQLParseError (Some (rt_lineNumber rawTable)))
      | Inr tableSchema \<Rightarrow>
          (case validateFieldCount (length (ts_fields tableSchema)) (ts_name tableSchema)
                  DEFAULT_VALIDATION_LIMITS of
             Some e \<Rightarrow> Inl (SQLParseError (Some (rt_lineNumber rawTable)))
           | None \<Rightarrow>
               (case table_schemas rawTables of
                  Inl e \<Rightarrow> Inl e
                | Inr tables \<Rightarrow> Inr (tableSchema # tables))))"

definition extractTables :: "string \<Rightarrow> error + TableSchema list" where
  "extractTables sql =
     (if sql = [] then Inl (SQLParseError None)
      else
        (case parse sql of
           Inl e \<Rightarrow> Inl e
         | Inr rawTables \<Rightarrow>
             (case validateTableCount (length rawTables) DEFAULT_VALIDATION_LIMITS of
                Some e \<Rightarrow> Inl e
              | None \<Rightarrow> table_schemas rawTables)))"

declare mapType.simps [simp del] handleSpecialCases.simps [simp del]
declare exec_all.simps [simp del] replace_from.simps [simp del]

section \<open>Properties of the matcher\<close>














section \<open>Properties of the Type Mapper\<close>

text \<open>
  C9. For every TypeMapper instance, strict or not, and every dialect, \<open>mapType\<close> of the
  empty SQL type returns \<open>any\<close> and throws nothing, and leaves the store as it was;
  a strict instance does throw \<open>TypeMappingError\<close> for an unresolved non-empty type.
\<close>

theorem mapType_empty_any:
  "mapType h this [] dialect = (h, Inr ''any'') \<and>
   snd (mapType initial_store \<lparr>customMappings = 3, strictMode = True\<rparr> ''foo'' MYSQL)
     = Inl (TypeMappingError ''foo'' MYSQL)"
proof
  show "mapType h this [] dialect = (h, Inr ''any'')"
    by (subst mapType.simps) simp
  show "snd (mapType initial_store \<lparr>customMappings = 3, strictMode = True\<rparr> ''foo'' MYSQL)
     = Inl (TypeMappingError ''foo'' MYSQL)"
    by code_simp
qed

text \<open>
  C7. For the MySQL dialect, a mapper built with no custom mappings (whatever its
  strict mode) maps \<open>TINYINT(1)\<close> to \<open>boolean\<close>, and both \<open>TINYINT(2)\<close> and \<open>TINYINT\<close>
  to \<open>number\<close>.
\<close>

theorem mapType_tinyint:
  "(case new_TypeMapper initial_store \<lparr>opt_customMappings = None, opt_strictMode = strict\<rparr> of
      (h, this) \<Rightarrow>
        snd (mapType h this ''TINYINT(1)'' MYSQL) = Inr ''boolean'' \<and>
        snd (mapType h this ''TINYINT(2)'' MYSQL) = Inr ''number'' \<and>
        snd (mapType h this ''TINYINT'' MYSQL) = Inr ''number'')"
  by code_simp

text \<open>
  C8. \<open>detectDialect\<close> looks at the lower-cased text. When it contains a PostgreSQL
  signature the result is PostgreSQL, whatever else it contains; otherwise a MySQL
  signature gives MySQL; otherwise an SQLite signature gives SQLite; MySQL is the
  default.
\<close>

theorem detectDialect_precedence:
  "(has_signature sql postgresql_signatures \<longrightarrow> detectDialect sql = POSTGRESQL) \<and>
   (\<not> has_signature sql postgresql_signatures \<and> has_signature sql mysql_signatures
      \<longrightarrow> detectDialect sql = MYSQL) \<and>
   (\<not> has_signature sql postgresql_signatures \<and> \<not> has_signature sql mysql_signatures \<and>
      has_signature sql sqlite_signatures \<longrightarrow> detectDialect sql = SQLITE) \<and>
   (\<not> has_signature sql postgresql_signatures \<and> \<not> has_signature sql mysql_signatures \<and>
      \<not> has_signature sql sqlite_signatures \<longrightarrow> detectDialect sql = MYSQL)"
  unfolding has_signature_def postgresql_signatures_def mysql_signatures_def
    sqlite_signatures_def detectDialect_def Let_def
  by simp

theorem detectDialect_precedence_witness:
  "has_signature ''id SERIAL) ENGINE=InnoDB'' postgresql_signatures \<and>
   has_signature ''id SERIAL) ENGINE=InnoDB'' mysql_signatures \<and>
   detectDialect ''id SERIAL) ENGINE=InnoDB'' = POSTGRESQL \<and>
   \<not> has_signature ''a TINYINT'' postgresql_signatures \<and>
   has_signature ''a TINYINT'' mysql_signatures \<and>
   detectDialect ''a TINYINT'' = MYSQL \<and>
   \<not> has_signature ''PRAGMA'' postgresql_signatures \<and>
   \<not> has_signature ''PRAGMA'' mysql_signatures \<and>
   has_signature ''PRAGMA'' sqlite_signatures \<and>
   detectDialect ''PRAGMA'' = SQLITE \<and>
   \<not> has_signature ''id INT'' postgresql_signatures \<and>
   \<not> has_signature ''id INT'' mysql_signatures \<and>
   \<not> has_signature ''id INT'' sqlite_signatures \<and>
   detectDialect ''id INT'' = MYSQL"
proof -
  have a: "has_signature ''id SERIAL) ENGINE=InnoDB'' postgresql_signatures"
    and b: "has_signature ''id SERIAL) ENGINE=InnoDB'' mysql_signatures"
    by code_simp+
  have c: "\<not> has_signature ''a TINYINT'' postgresql_signatures"
    and d: "has_signature ''a TINYINT'' mysql_signatures"
    by code_simp+
  have e: "\<not> has_signature ''PRAGMA'' postgresql_signatures"
    and f: "\<not> has_signature ''PRAGMA'' mysql_signatures"
    and g: "has_signature ''PRAGMA'' sqlite_signatures"
    by code_simp+
  have i: "\<not> has_signature ''id INT'' postgresql_signatures"
    and j: "\<not> has_signature ''id INT'' mysql_signatures"
    and k: "\<not> has_signature ''id INT'' sqlite_signatures"
    by code_simp+
  have p1: "detectDialect ''id SERIAL) ENGINE=InnoDB'' = POSTGRESQL"
    using detectDialect_precedence [of "''id SERIAL) ENGINE=InnoDB''"] a by (elim conjE) (rule mp)
  have p2: "detectDialect ''a TINYINT'' = MYSQL"
    using detectDialect_precedence [of "''a TINYINT''"] c d by (elim conjE) (rule mp, assumption, rule conjI)
  have p3: "detectDialect ''PRAGMA'' = SQLITE"
    using detectDialect_precedence [of "''PRAGMA''"] e f g by (elim conjE) (rule mp, assumption, intro conjI)
  have p4: "detectDialect ''id INT'' = MYSQL"
    using detectDialect_precedence [of "''id INT''"] i j k by (elim conjE) (erule mp, intro conjI)
  show ?thesis
    by (intro conjI a b c d e f g i j k p1 p2 p3 p4)
qed

section \<open>Properties of the Type Mapper's store\<close>





lemma frame_alloc_table: "frame h (fst (alloc_table h t))"
  by (simp add: frame_def alloc_table_def)













section \<open>Properties of the Field Parser\<close>

lemma parseConstraints_primary_key:
  "FC_PRIMARY_KEY \<in> fc_type ` set (parseConstraints cs) \<Longrightarrow> re_test PRIMARY_KEY_PATTERN True cs"
  by (auto simp: parseConstraints_def split: if_splits option.splits)

lemma determineNullability_primary_key:
  "re_test PRIMARY_KEY_PATTERN True cs \<Longrightarrow> \<not> determineNullability cs"
  by (simp add: determineNullability_def)

lemma parseField_primary_key:
  assumes "parseField d ln = Inr f" and "FC_PRIMARY_KEY \<in> fc_type ` set (fs_constraints f)"
  shows "\<not> fs_nullable f"
proof -
  from assms(1) obtain cs where
    f: "fs_constraints f = parseConstraints cs" "fs_nullable f = determineNullability cs"
    by (auto simp: parseField_def Let_def split: if_splits option.splits)
  with assms(2) show ?thesis
    by (simp add: parseConstraints_primary_key determineNullability_primary_key)
qed

lemma parse_definitions_Cons:
  "parse_definitions i (d # ds) =
     (if \<not> is_field_segment d then parse_definitions (i + 1) ds
      else (case parseField (str_trim d) (Some (i + 1)) of
              Inl e \<Rightarrow> Inl (SQLParseError (Some (i + 1)))
            | Inr field \<Rightarrow>
                (case parse_definitions (i + 1) ds of
                   Inl e \<Rightarrow> Inl e
                 | Inr fields' \<Rightarrow> Inr (field # fields'))))"
  unfolding parse_definitions.simps Let_def is_field_segment_def
  by (cases "str_trim d = []"; cases "isTableLevelConstraint (str_trim d)")
     (simp_all only: simp_thms if_True if_False)

lemma parse_definitions_primary_key:
  "parse_definitions i ds = Inr fs \<Longrightarrow> f \<in> set fs
     \<Longrightarrow> FC_PRIMARY_KEY \<in> fc_type ` set (fs_constraints f) \<Longrightarrow> \<not> fs_nullable f"
proof (induction ds arbitrary: i fs)
  case Nil
  then show ?case by simp
next
  case (Cons d ds)
  show ?case
  proof (cases "is_field_segment d")
    case False
    with Cons.prems(1) have "parse_definitions (i + 1) ds = Inr fs"
      by (simp add: parse_definitions_Cons del: parse_definitions.simps)
    with Cons.IH Cons.prems(2,3) show ?thesis by blast
  next
    case True
    with Cons.prems(1) obtain g gs where
      g: "parseField (str_trim d) (Some (i + 1)) = Inr g"
      and gs: "parse_definitions (i + 1) ds = Inr gs" and fs: "fs = g # gs"
      by (auto simp add: parse_definitions_Cons simp del: parse_definitions.simps split: sum.splits)
    from Cons.prems(2) fs consider "f = g" | "f \<in> set gs" by auto
    then show ?thesis
    proof cases
      case 1
      with g Cons.prems(3) show ?thesis by (auto dest: parseField_primary_key)
    next
      case 2
      with Cons.IH gs Cons.prems(3) show ?thesis by blast
    qed
  qed
qed

text \<open>
  C5. Every field schema that \<open>parseField\<close> returns, and every one in the sequence that
  \<open>parseFields\<close> returns, is not nullable when its constraints contain PRIMARY_KEY.
\<close>

theorem primary_key_not_nullable:
  "(parseField d ln = Inr f \<longrightarrow> FC_PRIMARY_KEY \<in> fc_type ` set (fs_constraints f)
      \<longrightarrow> \<not> fs_nullable f) \<and>
   (parseFields s = Inr fs \<longrightarrow>
      (\<forall>g \<in> set fs. FC_PRIMARY_KEY \<in> fc_type ` set (fs_constraints g) \<longrightarrow> \<not> fs_nullable g))"
proof (intro conjI impI ballI)
  assume "parseField d ln = Inr f" and "FC_PRIMARY_KEY \<in> fc_type ` set (fs_constraints f)"
  then show "\<not> fs_nullable f" by (rule parseField_primary_key)
next
  fix g
  assume p: "parseFields s = Inr fs" and g: "g \<in> set fs"
    and pk: "FC_PRIMARY_KEY \<in> fc_type ` set (fs_constraints g)"
  from p have "parse_definitions 0 (splitFieldDefinitions s) = Inr fs"
    by (simp add: parseFields_def split: if_splits)
  then show "\<not> fs_nullable g"
    using g pk by (rule parse_definitions_primary_key)
qed

theorem primary_key_not_nullable_witness:
  "parseField ''id INT PRIMARY KEY'' None =
     Inr \<lparr>fs_name = ''id'', fs_type = ''INT'', fs_nullable = False, fs_defaultValue = None,
          fs_constraints = [\<lparr>fc_type = FC_PRIMARY_KEY, fc_value = None\<rparr>], fs_comment = None\<rparr> \<and>
   parseFields ''id INT PRIMARY KEY, n INT'' =
     Inr [\<lparr>fs_name = ''id'', fs_type = ''INT'', fs_nullable = False, fs_defaultValue = None,
           fs_constraints = [\<lparr>fc_type = FC_PRIMARY_KEY, fc_value = None\<rparr>], fs_comment = None\<rparr>,
          \<lparr>fs_name = ''n'', fs_type = ''INT'', fs_nullable = True, fs_defaultValue = None,
           fs_constraints = [], fs_comment = None\<rparr>] \<and>
   \<not> fs_nullable \<lparr>fs_name = ''id'', fs_type = ''INT'', fs_nullable = False, fs_defaultValue = None,
          fs_constraints = [\<lparr>fc_type = FC_PRIMARY_KEY, fc_value = None\<rparr>], fs_comment = None\<rparr>"
proof -
  let ?f = "\<lparr>fs_name = ''id'', fs_type = ''INT'', fs_nullable = False, fs_defaultValue = None,
          fs_constraints = [\<lparr>fc_type = FC_PRIMARY_KEY, fc_value = None\<rparr>], fs_comment = None\<rparr>"
  have a: "parseField ''id INT PRIMARY KEY'' None = Inr ?f"
    by code_simp
  have b: "parseFields ''id INT PRIMARY KEY, n INT'' =
     Inr [?f, \<lparr>fs_name = ''n'', fs_type = ''INT'', fs_nullable = True, fs_defaultValue = None,
           fs_constraints = [], fs_comment = None\<rparr>]"
    by code_simp
  have c: "FC_PRIMARY_KEY \<in> fc_type ` set (fs_constraints ?f)"
    by simp
  from primary_key_not_nullable [of "''id INT PRIMARY KEY''" None ?f "''id INT PRIMARY KEY, n INT''"] a c
  have "\<not> fs_nullable ?f" by blast
  with a b show ?thesis by (intro conjI)
qed


lemma filter_dropWhile_not: "filter (\<lambda>c. \<not> P c) (dropWhile P xs) = filter (\<lambda>c. \<not> P c) xs"
  by (induction xs) simp_all

lemma strip_ws_append: "strip_ws (a @ b) = strip_ws a @ strip_ws b"
  by (simp add: strip_ws_def)

lemma strip_ws_comma: "strip_ws '','' = '',''"
  by (simp add: strip_ws_def isSpace_def)

lemma strip_ws_trim: "strip_ws (str_trim x) = strip_ws x"
  by (simp add: strip_ws_def str_trim_def rev_filter [symmetric] filter_dropWhile_not)

lemma dropWhile_all_iff: "(\<forall>c \<in> set (dropWhile P xs). P c) \<longleftrightarrow> (\<forall>c \<in> set xs. P c)"
  by (induction xs) auto

lemma trim_empty_iff: "str_trim x = [] \<longleftrightarrow> strip_ws x = []"
proof -
  have "str_trim x = [] \<longleftrightarrow> (\<forall>c \<in> set (rev (dropWhile isSpace x)). isSpace c)"
    by (simp add: str_trim_def)
  also have "\<dots> \<longleftrightarrow> (\<forall>c \<in> set x. isSpace c)"
    by (simp add: dropWhile_all_iff)
  also have "\<dots> \<longleftrightarrow> strip_ws x = []"
    by (simp add: strip_ws_def filter_empty_conv)
  finally show ?thesis .
qed

lemma str_join_Cons: "ys \<noteq> [] \<Longrightarrow> str_join sep (x # ys) = x @ sep @ str_join sep ys"
  by (cases ys) simp_all

lemma strip_ws_Cons_comma: "strip_ws (CHR '','' # xs) = CHR '','' # strip_ws xs"
  by (simp add: strip_ws_def isSpace_def)

lemma strip_join_snoc:
  "strip_ws (str_join '','' (ds @ [d])) = concat (map (\<lambda>x. strip_ws x @ '','') ds) @ strip_ws d"
  by (induction ds) (simp_all add: str_join_Cons strip_ws_append strip_ws_Cons_comma)

lemma strip_join:
  "ds \<noteq> [] \<Longrightarrow> strip_ws (str_join '','' ds) @ '','' = concat (map (\<lambda>x. strip_ws x @ '','') ds)"
proof -
  assume "ds \<noteq> []"
  then obtain es e where "ds = es @ [e]"
    by (metis append_butlast_last_id)
  then show ?thesis
    by (simp add: strip_join_snoc)
qed

text \<open>One round of the loop of \<open>splitFieldDefinitions\<close> either closes a definition at a comma or adds the character.\<close>

lemma split_loop_step:
  assumes "split_loop prevChar (c # cs) definitions currentDef parenDepth inQuotes quoteChar = r"
  shows "\<exists>parenDepth' inQuotes' quoteChar'.
           (c = CHR '','' \<and>
            split_loop (Some c) cs (definitions @ [str_trim currentDef]) [] parenDepth' inQuotes' quoteChar' = r) \<or>
           split_loop (Some c) cs definitions (currentDef @ [c]) parenDepth' inQuotes' quoteChar' = r"
proof -
  define isQuote where
    "isQuote = ((c = CHR 0x22 \<or> c = CHR 0x27 \<or> c = CHR 0x60) \<and> prevChar \<noteq> Some (CHR 0x5C))"
  define iq where
    "iq = (if isQuote then (if \<not> inQuotes then True
                           else if Some c = quoteChar then False else inQuotes)
           else inQuotes)"
  define qc where
    "qc = (if isQuote then (if \<not> inQuotes then Some c
                           else if Some c = quoteChar then None else quoteChar)
           else quoteChar)"
  define pd where
    "pd = (if \<not> iq then
             (if c = CHR ''('' then parenDepth + 1
              else if c = CHR '')'' then parenDepth - 1 else parenDepth)
           else parenDepth)"
  have step: "split_loop prevChar (c # cs) definitions currentDef parenDepth inQuotes quoteChar =
     (if \<not> iq \<and> pd = 0 \<and> c = CHR '',''
      then split_loop (Some c) cs (definitions @ [str_trim currentDef]) [] pd iq qc
      else split_loop (Some c) cs definitions (currentDef @ [c]) pd iq qc)"
    unfolding split_loop.simps Let_def isQuote_def iq_def qc_def pd_def ..
  show ?thesis
  proof (cases "\<not> iq \<and> pd = 0 \<and> c = CHR '',''")
    case True
    have "split_loop prevChar (c # cs) definitions currentDef parenDepth inQuotes quoteChar =
          split_loop (Some c) cs (definitions @ [str_trim currentDef]) [] pd iq qc"
      unfolding step by (rule if_P [OF True])
    from this assms
    have "split_loop (Some c) cs (definitions @ [str_trim currentDef]) [] pd iq qc = r"
      by (rule trans [OF sym])
    with True show ?thesis by blast
  next
    case False
    have "split_loop prevChar (c # cs) definitions currentDef parenDepth inQuotes quoteChar =
          split_loop (Some c) cs definitions (currentDef @ [c]) pd iq qc"
      unfolding step by (rule if_not_P [OF False])
    from this assms
    have "split_loop (Some c) cs definitions (currentDef @ [c]) pd iq qc = r"
      by (rule trans [OF sym])
    then show ?thesis by blast
  qed
qed

lemma split_loop_text:
  "split_loop prevChar cs definitions currentDef parenDepth inQuotes quoteChar = (ds, cur)
   \<Longrightarrow> concat (map (\<lambda>x. strip_ws x @ '','') ds) @ strip_ws cur
       = concat (map (\<lambda>x. strip_ws x @ '','') definitions) @ strip_ws currentDef @ strip_ws cs"
proof (induction cs arbitrary: prevChar definitions currentDef parenDepth inQuotes quoteChar)
  case Nil
  then show ?case by (simp add: strip_ws_def)
next
  case (Cons c cs)
  from split_loop_step [OF Cons.prems] obtain parenDepth' inQuotes' quoteChar' where
    "(c = CHR '','' \<and>
      split_loop (Some c) cs (definitions @ [str_trim currentDef]) [] parenDepth' inQuotes' quoteChar' = (ds, cur)) \<or>
     split_loop (Some c) cs definitions (currentDef @ [c]) parenDepth' inQuotes' quoteChar' = (ds, cur)"
    by blast
  then show ?case
  proof
    assume a: "c = CHR '','' \<and>
      split_loop (Some c) cs (definitions @ [str_trim currentDef]) [] parenDepth' inQuotes' quoteChar' = (ds, cur)"
    then have "concat (map (\<lambda>x. strip_ws x @ '','') ds) @ strip_ws cur
       = concat (map (\<lambda>x. strip_ws x @ '','') (definitions @ [str_trim currentDef])) @ strip_ws [] @ strip_ws cs"
      using Cons.IH by blast
    with a show ?thesis
      by (simp add: strip_ws_trim) (simp add: strip_ws_def isSpace_def)
  next
    assume "split_loop (Some c) cs definitions (currentDef @ [c]) parenDepth' inQuotes' quoteChar' = (ds, cur)"
    then have "concat (map (\<lambda>x. strip_ws x @ '','') ds) @ strip_ws cur
       = concat (map (\<lambda>x. strip_ws x @ '','') definitions) @ strip_ws (currentDef @ [c]) @ strip_ws cs"
      using Cons.IH by blast
    then show ?thesis
      by (simp add: strip_ws_def)
  qed
qed

lemma rejoin_split:
  "strip_ws s = strip_ws (str_join '','' (splitFieldDefinitions s)) @ (if dropped_comma s then '','' else [])"
proof -
  obtain ds cur where sl: "split_loop None s [] [] 0 False None = (ds, cur)"
    by (cases "split_loop None s [] [] 0 False None")
  from split_loop_text [OF sl]
  have inv: "concat (map (\<lambda>x. strip_ws x @ '','') ds) @ strip_ws cur = strip_ws s"
    by (simp add: strip_ws_def)
  show ?thesis
  proof (cases "str_trim cur = []")
    case False
    with sl have "splitFieldDefinitions s = ds @ [str_trim cur]" and "\<not> dropped_comma s"
      by (simp_all add: splitFieldDefinitions_def dropped_comma_def)
    with inv show ?thesis
      by (simp add: strip_join_snoc strip_ws_trim)
  next
    case True
    then have cur: "strip_ws cur = []"
      by (simp add: trim_empty_iff)
    from True sl have sp: "splitFieldDefinitions s = ds" and dc: "dropped_comma s = (ds \<noteq> [])"
      by (simp_all add: splitFieldDefinitions_def dropped_comma_def)
    show ?thesis
    proof (cases "ds = []")
      case True
      with inv cur sp dc show ?thesis by (simp add: strip_ws_def)
    next
      case False
      with inv cur sp dc strip_join [OF False] show ?thesis by simp
    qed
  qed
qed

lemma parse_definitions_length:
  "parse_definitions i ds = Inr fs \<Longrightarrow> length fs = length (filter is_field_segment ds)"
proof (induction ds arbitrary: i fs)
  case Nil
  then show ?case by simp
next
  case (Cons d ds)
  show ?case
  proof (cases "is_field_segment d")
    case False
    with Cons.prems have "parse_definitions (i + 1) ds = Inr fs"
      by (simp add: parse_definitions_Cons del: parse_definitions.simps)
    with Cons.IH False show ?thesis by simp
  next
    case True
    with Cons.prems obtain g gs where
      "parse_definitions (i + 1) ds = Inr gs" and "fs = g # gs"
      by (auto simp add: parse_definitions_Cons simp del: parse_definitions.simps split: sum.splits)
    with Cons.IH True show ?thesis by simp
  qed
qed

text \<open>
  C4, as amended. When \<open>parseFields\<close> returns, it returns as many field schemas as the
  split has segments that are neither blank nor a table-level constraint. Rejoining
  the split segments with commas gives the field-list text back up to white space,
  except that a last top-level comma with only white space after it is dropped.
\<close>

theorem split_count_and_rejoin:
  "(parseFields s = Inr fs \<longrightarrow>
      length fs = length (filter is_field_segment (splitFieldDefinitions s))) \<and>
   strip_ws s = strip_ws (str_join '','' (splitFieldDefinitions s)) @ (if dropped_comma s then '','' else [])"
proof
  show "parseFields s = Inr fs \<longrightarrow>
      length fs = length (filter is_field_segment (splitFieldDefinitions s))"
    by (auto simp: parseFields_def split: if_splits dest: parse_definitions_length)
  show "strip_ws s = strip_ws (str_join '','' (splitFieldDefinitions s)) @ (if dropped_comma s then '','' else [])"
    by (rule rejoin_split)
qed

theorem split_count_and_rejoin_witness:
  "parseFields ''a INT, KEY k (a),'' =
     Inr [\<lparr>fs_name = ''a'', fs_type = ''INT'', fs_nullable = True, fs_defaultValue = None,
           fs_constraints = [], fs_comment = None\<rparr>] \<and>
   splitFieldDefinitions ''a INT, KEY k (a),'' = [''a INT'', ''KEY k (a)''] \<and>
   length (filter is_field_segment (splitFieldDefinitions ''a INT, KEY k (a),'')) = 1 \<and>
   dropped_comma ''a INT, KEY k (a),'' \<and>
   strip_ws ''a INT, KEY k (a),'' = strip_ws (str_join '','' (splitFieldDefinitions ''a INT, KEY k (a),'')) @ '',''"
proof -
  let ?f = "\<lparr>fs_name = ''a'', fs_type = ''INT'', fs_nullable = True, fs_defaultValue = None,
           fs_constraints = [], fs_comment = None\<rparr>"
  have a: "parseFields ''a INT, KEY k (a),'' = Inr [?f]"
    by code_simp
  have b: "splitFieldDefinitions ''a INT, KEY k (a),'' = [''a INT'', ''KEY k (a)'']"
    by code_simp
  have c: "dropped_comma ''a INT, KEY k (a),''"
    by code_simp
  from split_count_and_rejoin [of "''a INT, KEY k (a),''" "[?f]"] a c
  have "length [?f] = length (filter is_field_segment (splitFieldDefinitions ''a INT, KEY k (a),''))"
    and "strip_ws ''a INT, KEY k (a),'' =
      strip_ws (str_join '','' (splitFieldDefinitions ''a INT, KEY k (a),'')) @ '',''"
    by simp_all
  with a b c show ?thesis by simp
qed

text \<open>
  The claim as stated fails on a field list that ends with a comma: the rejoined
  segments are not the text modulo white space.
\<close>

theorem rejoin_trailing_comma_counterexample:
  "splitFieldDefinitions ''a INT,'' = [''a INT''] \<and>
   strip_ws (str_join '','' (splitFieldDefinitions ''a INT,'')) = ''aINT'' \<and>
   strip_ws ''a INT,'' = ''aINT,''"
  by code_simp

section \<open>Properties of the Statement Extractor\<close>























section \<open>The captured field list\<close>
















































section \<open>Properties of the Table Extractor\<close>

text \<open>
  C2. \<open>extractTables\<close> on the two-statement input of the specification returns exactly
  two table schemas, \<open>users\<close> and \<open>posts\<close>; \<open>posts\<close> has exactly one table constraint,
  a FOREIGN_KEY on \<open>user_id\<close> that references \<open>users(id)\<close>.
\<close>

theorem extractTables_users_posts:
  "extractTables
     ''CREATE TABLE users (id INT PRIMARY KEY); CREATE TABLE posts (id INT PRIMARY KEY, user_id INT, FOREIGN KEY (user_id) REFERENCES users(id));''
   = Inr [\<lparr>ts_name = ''users'',
            ts_fields =
              [\<lparr>fs_name = ''id'', fs_type = ''INT'', fs_nullable = False, fs_defaultValue = None,
                fs_constraints = [\<lparr>fc_type = FC_PRIMARY_KEY, fc_value = None\<rparr>],
                fs_comment = None\<rparr>],
            ts_constraints = []\<rparr>,
          \<lparr>ts_name = ''posts'',
            ts_fields =
              [\<lparr>fs_name = ''id'', fs_type = ''INT'', fs_nullable = False, fs_defaultValue = None,
                fs_constraints = [\<lparr>fc_type = FC_PRIMARY_KEY, fc_value = None\<rparr>],
                fs_comment = None\<rparr>,
               \<lparr>fs_name = ''user_id'', fs_type = ''INT'', fs_nullable = True, fs_defaultValue = None,
                fs_constraints = [], fs_comment = None\<rparr>],
            ts_constraints =
              [\<lparr>tc_type = TC_FOREIGN_KEY, tc_fields = [''user_id''],
                tc_reference = Some \<lparr>ref_table = ''users'', ref_fields = [''id'']\<rparr>\<rparr>]\<rparr>]"
  by code_simp

end
